theory Spec2Isabelle
  imports Complex_Main "HOL-Library.Sublist" "HOL-Library.Log_Nat"
begin

section \<open>Data model of the upload workflow (uploadMachine.ts)\<close>

text \<open>
  JavaScript's \<^verbatim>\<open>String.prototype.includes\<close>: the argument occurs somewhere in the
  receiver as a contiguous run of characters.
\<close>

fun str_includes :: "string \<Rightarrow> string \<Rightarrow> bool" where
  "str_includes [] sub = (sub = [])"
| "str_includes (c # cs) sub = (prefix sub (c # cs) \<or> str_includes cs sub)"

text \<open>
  The browser's \<^verbatim>\<open>File\<close>: the machine reads only its \<^verbatim>\<open>type\<close> (the MIME type); the
  name is what identifies the payload.
\<close>

record File =
  name :: string
  type :: string

type_synonym Blob = "nat list"

record Dimensions =
  width :: real
  height :: real

text \<open>
  \<^verbatim>\<open>FileMetadata\<close> is declared in \<^verbatim>\<open>../../types\<close>; the fields are the ones the two
  extraction services of uploadMachine.ts build: \<^verbatim>\<open>duration\<close> and \<^verbatim>\<open>dimensions\<close> for
  video, \<^verbatim>\<open>duration\<close> and \<^verbatim>\<open>waveformData\<close> for audio. Every field may be missing
  (the audio service starts from \<^verbatim>\<open>Partial<AudioMetadata> = {}\<close>).
\<close>

record FileMetadata =
  duration :: "real option"
  dimensions :: "Dimensions option"
  waveformData :: "real list option"

text \<open>
  \<^verbatim>\<open>VendorUpload\<close> as the Firebase adapter's \<^verbatim>\<open>onSuccess\<close> builds it (config.ts, lines
  80 to 92): the download URL and the object's storage metadata.
\<close>

record FirebaseObject =
  bucket :: string
  fullPath :: string
  md5Hash :: string
  generation :: string

record VendorUpload =
  fileURL :: string
  firebase :: "FirebaseObject option"

text \<open>
  \<^verbatim>\<open>SanityUpload\<close>: the document the content store returns; the machine stores it and
  never looks inside.
\<close>

record SanityUpload =
  createdAt :: string
  title :: "string option"

text \<open>
  A thrown JavaScript error value: Firebase's storage errors carry a \<^verbatim>\<open>code\<close>, every
  \<^verbatim>\<open>Error\<close> a \<^verbatim>\<open>message\<close>.
\<close>

record Error =
  code :: "string option"
  message :: string

text \<open>
  The \<^verbatim>\<open>error\<close> field of the context is an object \<^verbatim>\<open>{error?, title?, subtitle?}\<close>.
  Its inner \<^verbatim>\<open>error\<close> is named \<open>cause\<close> and its \<^verbatim>\<open>title\<close> \<open>error_title\<close> here,
  since a record field of one name can be declared once; the context's \<^verbatim>\<open>file\<close> is
  \<open>ctx_file\<close>, \<open>file\<close> being a reserved word.
\<close>

record ErrorInfo =
  cause :: "Error option"
  error_title :: "string option"
  subtitle :: "string option"

record Context =
  retries :: int
  vendorUploadProgress :: int
  ctx_file :: "File option"
  fileMetadata :: "FileMetadata option"
  vendorUpload :: "VendorUpload option"
  sanityUpload :: "SanityUpload option"
  videoScreenshot :: "Blob option"
  audioWaveform :: "real list option"
  error :: "ErrorInfo option"

definition INITIAL_CONTEXT :: Context where
  "INITIAL_CONTEXT =
     \<lparr>retries = 0, vendorUploadProgress = 0, ctx_file = None, fileMetadata = None,
      vendorUpload = None, sanityUpload = None, videoScreenshot = None,
      audioWaveform = None, error = None\<rparr>"

datatype state =
    idle
  | extractingVideoMetadata
  | extractingAudioMetadata
  | uploadingToVendor
  | uploadingToSanity
  | success
  | failure

text \<open>What the two extraction promises resolve with.\<close>

record VideoExtraction =
  screenshot :: "Blob option"
  video_metadata :: FileMetadata

record AudioExtraction =
  audio_metadata :: FileMetadata

text \<open>
  The events of \<^verbatim>\<open>UploadEvent\<close>, followed by the events xstate raises itself when an
  invoked promise settles (\<^verbatim>\<open>done.invoke.<id>\<close> and \<^verbatim>\<open>error.platform.<id>\<close>), which
  the \<^verbatim>\<open>onDone\<close> and \<^verbatim>\<open>onError\<close> entries of a state handle.
\<close>

datatype event =
    SELECT_FILE "File option"
  | RETRY
  | RESET_UPLOAD
  | CANCEL_INPUT
  | VENDOR_ERROR Error
  | VENDOR_PROGRESS int
  | VENDOR_DONE VendorUpload
  | SANITY_DONE SanityUpload
  | Done_ExtractVideoMetadata VideoExtraction
  | Error_ExtractVideoMetadata
  | Done_ExtractAudioMetadata AudioExtraction
  | Error_ExtractAudioMetadata
  | Done_SanityUpload SanityUpload
  | Error_SanityUpload "Error option"

datatype service = ExtractVideoMetadata | ExtractAudioMetadata | FirebaseUpload | SanityUpload

text \<open>
  What a transition does besides changing the state and the context: it stops the
  service invoked by the state it leaves, runs its named actions, and starts the service
  invoked by the state it enters.
\<close>

datatype effect = Stop service | invalidFileToast | Start service

fun invoke :: "state \<Rightarrow> service option" where
  "invoke extractingVideoMetadata = Some ExtractVideoMetadata"
| "invoke extractingAudioMetadata = Some ExtractAudioMetadata"
| "invoke uploadingToVendor = Some FirebaseUpload"
| "invoke uploadingToSanity = Some SanityUpload"
| "invoke _ = None"


section \<open>The transition table of the upload machine\<close>

text \<open>The two guards bound by name in the machine's options (lines 298 to 301).\<close>

definition canRetry :: "Context \<Rightarrow> bool" where
  "canRetry context = (retries context \<le> 3)"

definition hasUploadedToVendor :: "Context \<Rightarrow> bool" where
  "hasUploadedToVendor context = (vendorUpload context \<noteq> None)"

text \<open>
  The guards of the two guarded \<^verbatim>\<open>SELECT_FILE\<close> entries (lines 268 to 271 and 280 to 283):
  the machine is in \<^verbatim>\<open>idle\<close> or \<^verbatim>\<open>failure\<close>, and the event carries a file whose type
  includes the word. \<^verbatim>\<open>event.file?.type?.includes(w)\<close> is undefined, hence false after
  \<^verbatim>\<open>|| false\<close>, when the event has no file.
\<close>

definition select_cond :: "string \<Rightarrow> state \<Rightarrow> event \<Rightarrow> bool" where
  "select_cond w s e =
     ((s = idle \<or> s = failure) \<and>
      (case e of SELECT_FILE (Some f) \<Rightarrow> str_includes (type f) w | _ \<Rightarrow> False))"

text \<open>
  A transition of the table: its target (none for a transition that stays where it is),
  the context after its \<^verbatim>\<open>assign\<close> actions, and its other actions.

  xstate's \<^verbatim>\<open>assign\<close> merges: the new context is
  \<^verbatim>\<open>Object.assign({}, context, partialUpdate)\<close>, where \<^verbatim>\<open>partialUpdate\<close> holds the
  properties of the object given to \<^verbatim>\<open>assign\<close>, or is the object returned by the function
  given to it. A property that the update does not own keeps its value. So each
  \<^verbatim>\<open>assign\<close> is a record update of the properties it names.
\<close>

type_synonym transition_result = "state option \<times> Context \<times> effect list"

text \<open>
  The entries of each state node: its \<^verbatim>\<open>on\<close> map and the \<^verbatim>\<open>onDone\<close>/\<^verbatim>\<open>onError\<close> of its
  \<^verbatim>\<open>invoke\<close> (lines 52 to 259). \<open>None\<close>: the state node has no entry for the event.

  In \<^verbatim>\<open>success\<close>, \<^verbatim>\<open>RESET_UPLOAD\<close> assigns \<^verbatim>\<open>{...INITIAL_CONTEXT}\<close>, an object that owns
  the two properties \<^verbatim>\<open>retries\<close> and \<^verbatim>\<open>vendorUploadProgress\<close> (lines 41 to 44).
\<close>

definition state_on :: "state \<Rightarrow> Context \<Rightarrow> event \<Rightarrow> transition_result option" where
  "state_on s context e =
     (case s of
        idle \<Rightarrow> None
      | extractingVideoMetadata \<Rightarrow>
          (case e of
             Done_ExtractVideoMetadata d \<Rightarrow>
               Some (Some uploadingToVendor,
                     context\<lparr>videoScreenshot := screenshot d,
                             fileMetadata := Some (video_metadata d)\<rparr>, [])
           | Error_ExtractVideoMetadata \<Rightarrow> Some (Some uploadingToVendor, context, [])
           | _ \<Rightarrow> None)
      | extractingAudioMetadata \<Rightarrow>
          (case e of
             Done_ExtractAudioMetadata d \<Rightarrow>
               Some (Some uploadingToVendor,
                     context\<lparr>fileMetadata := Some (audio_metadata d)\<rparr>, [])
           | Error_ExtractAudioMetadata \<Rightarrow> Some (Some uploadingToVendor, context, [])
           | _ \<Rightarrow> None)
      | uploadingToVendor \<Rightarrow>
          (case e of
             VENDOR_PROGRESS n \<Rightarrow> Some (None, context\<lparr>vendorUploadProgress := n\<rparr>, [])
           | VENDOR_DONE v \<Rightarrow>
               Some (Some uploadingToSanity, context\<lparr>vendorUpload := Some v\<rparr>, [])
           | VENDOR_ERROR err \<Rightarrow>
               Some (Some failure,
                     context\<lparr>error := Some
                       \<lparr>cause = Some err,
                        error_title = Some ''Failed to upload'',
                        subtitle = Some
                          (if retries context > 1
                           then ''Make sure the right credentials are set in the plugins' settings.''
                           else message err)\<rparr>\<rparr>, [])
           | _ \<Rightarrow> None)
      | uploadingToSanity \<Rightarrow>
          (case e of
             Done_SanityUpload d \<Rightarrow>
               Some (Some success, context\<lparr>sanityUpload := Some d\<rparr>, [])
           | Error_SanityUpload err \<Rightarrow>
               Some (Some failure,
                     context\<lparr>error := Some
                       \<lparr>cause = err,
                        error_title = Some ''Failed to save to library'',
                        subtitle = Some
                          (if retries context > 0
                           then ''Try again in a few minutes, and if this still doesn't work reach a developer for help.''
                           else ''This is probably due to a network error, please try again.'')\<rparr>\<rparr>, [])
           | _ \<Rightarrow> None)
      | success \<Rightarrow>
          (case e of
             RESET_UPLOAD \<Rightarrow>
               Some (Some idle,
                     context\<lparr>retries := retries INITIAL_CONTEXT,
                             vendorUploadProgress := vendorUploadProgress INITIAL_CONTEXT\<rparr>, [])
           | _ \<Rightarrow> None)
      | failure \<Rightarrow>
          (case e of
             RETRY \<Rightarrow>
               (if hasUploadedToVendor context
                then Some (Some uploadingToSanity, context\<lparr>retries := retries context + 1\<rparr>, [])
                else Some (Some uploadingToVendor, context\<lparr>retries := retries context + 1\<rparr>, []))
           | _ \<Rightarrow> None))"

text \<open>
  The entries of the machine's own \<^verbatim>\<open>on\<close> map (lines 261 to 295), tried when the
  active state node has no entry for the event. Of the three \<^verbatim>\<open>SELECT_FILE\<close> entries the
  first whose guard holds is taken; the last has no guard, no target and no
  \<^verbatim>\<open>assign\<close>.
\<close>

definition root_on :: "state \<Rightarrow> Context \<Rightarrow> event \<Rightarrow> transition_result option" where
  "root_on s context e =
     (case e of
        CANCEL_INPUT \<Rightarrow> Some (Some idle, context, [])
      | SELECT_FILE f \<Rightarrow>
          (if select_cond ''video'' s e
           then Some (Some extractingVideoMetadata, context\<lparr>ctx_file := f\<rparr>, [])
           else if select_cond ''audio'' s e
           then Some (Some extractingAudioMetadata, context\<lparr>ctx_file := f\<rparr>, [])
           else Some (None, context, [invalidFileToast]))
      | _ \<Rightarrow> None)"

definition exit_effects :: "state \<Rightarrow> effect list" where
  "exit_effects s = (case invoke s of Some v \<Rightarrow> [Stop v] | None \<Rightarrow> [])"

definition entry_effects :: "state \<Rightarrow> effect list" where
  "entry_effects s = (case invoke s of Some v \<Rightarrow> [Start v] | None \<Rightarrow> [])"

text \<open>
  One step of the machine: the state node's entry for the event, else the machine's, else
  nothing happens. A transition with a target leaves the current state and enters the
  target; one without keeps the state and only runs its actions.
\<close>

definition transition :: "state \<Rightarrow> Context \<Rightarrow> event \<Rightarrow> state \<times> Context \<times> effect list" where
  "transition s context e =
     (case (case state_on s context e of Some t \<Rightarrow> Some t | None \<Rightarrow> root_on s context e) of
        None \<Rightarrow> (s, context, [])
      | Some (None, context', actions) \<Rightarrow> (s, context', actions)
      | Some (Some target, context', actions) \<Rightarrow>
          (target, context', exit_effects s @ actions @ entry_effects target))"

text \<open>The machine run on a list of events from a given state and context.\<close>

fun run :: "state \<times> Context \<Rightarrow> event list \<Rightarrow> state \<times> Context" where
  "run sc [] = sc"
| "run (s, context) (e # es) =
     (case transition s context e of (s', context', _) \<Rightarrow> run (s', context') es)"

text \<open>What the machine can reach from its initial state \<^verbatim>\<open>idle\<close> and initial context.\<close>

inductive reachable :: "state \<Rightarrow> Context \<Rightarrow> bool" where
  reachable_init: "reachable idle INITIAL_CONTEXT"
| reachable_step:
    "reachable s context \<Longrightarrow> transition s context e = (s', context', fx) \<Longrightarrow> reachable s' context'"


section \<open>The audio metadata service (uploadMachine.ts, lines 117 to 151)\<close>

datatype 'a promise = Resolved 'a | Rejected | Pending

text \<open>
  \<^verbatim>\<open>getWaveformData\<close> is imported from \<^verbatim>\<open>../../scripts/getWaveformData\<close>; the service
  awaits it inside \<^verbatim>\<open>try\<close>. What the awaited call does is a parameter of the model: it
  returns samples, or throws, or never settles.
\<close>

datatype waveform_outcome = Returns "real list" | Throws | Never_settles

text \<open>
  The service. \<open>loaded\<close> is the duration the \<^verbatim>\<open>loadedmetadata\<close> listener has written into
  \<^verbatim>\<open>metadata\<close> by the time the awaited call is over, \<open>None\<close> while \<^verbatim>\<open>metadata\<close> is still
  \<^verbatim>\<open>{}\<close>.
\<close>

definition ExtractAudioMetadata_src ::
    "Context \<Rightarrow> real option \<Rightarrow> waveform_outcome \<Rightarrow> AudioExtraction promise" where
  "ExtractAudioMetadata_src context loaded waveform =
     (case ctx_file context of
        None \<Rightarrow> Rejected
      | Some f \<Rightarrow>
          if \<not> str_includes (type f) ''audio'' then Rejected
          else
            let metadata = \<lparr>duration = loaded, dimensions = None, waveformData = None\<rparr>
            in (case waveform of
                  Returns waveformData' \<Rightarrow>
                    Resolved \<lparr>audio_metadata = metadata\<lparr>waveformData := Some waveformData'\<rparr>\<rparr>
                | Throws \<Rightarrow> Resolved \<lparr>audio_metadata = metadata\<rparr>
                | Never_settles \<Rightarrow> Pending))"

text \<open>
  The event xstate sends to the machine when the invoked promise settles:
  \<^verbatim>\<open>done.invoke.ExtractAudioMetadata\<close> with the value, or
  \<^verbatim>\<open>error.platform.ExtractAudioMetadata\<close>.
\<close>

fun audio_settled :: "AudioExtraction promise \<Rightarrow> event option" where
  "audio_settled (Resolved d) = Some (Done_ExtractAudioMetadata d)"
| "audio_settled Rejected = Some Error_ExtractAudioMetadata"
| "audio_settled Pending = None"

text \<open>
  The machine in \<^verbatim>\<open>extractingAudioMetadata\<close> once the service has settled; \<open>None\<close> while
  the promise is pending.
\<close>

definition extractingAudioMetadata_settled ::
    "Context \<Rightarrow> real option \<Rightarrow> waveform_outcome \<Rightarrow> (state \<times> Context \<times> effect list) option" where
  "extractingAudioMetadata_settled context loaded waveform =
     map_option (transition extractingAudioMetadata context)
       (audio_settled (ExtractAudioMetadata_src context loaded waveform))"

section \<open>The Firebase adapter (packages/firebase/src/config.ts)\<close>

text \<open>
  The \<^verbatim>\<open>state_changed\<close> observer of \<^verbatim>\<open>uploadFile\<close> (lines 66 to 72) reports
  \<^verbatim>\<open>Math.ceil((snapshot.bytesTransferred / snapshot.totalBytes) * 100)\<close>. JavaScript
  numbers are IEEE 754 doubles: the division and the multiplication each give the double
  nearest to the exact result, ties going to the even mantissa.
\<close>

text \<open>The integer nearest to a real, the even one of the two when it lies half way.\<close>

definition roundTiesToEven :: "real \<Rightarrow> int" where
  "roundTiesToEven y =
     (let f = \<lfloor>y\<rfloor> in
      if y - of_int f < 1 / 2 then f
      else if 1 / 2 < y - of_int f then f + 1
      else if even f then f else f + 1)"

text \<open>
  A binary exponent \<open>k\<close> of a positive real, with \<open>2 powi k \<le> x \<le> 2 powi (k + 1)\<close>, read
  off the bit length of the integer part of \<open>x\<close> or of \<open>1 / x\<close>.
\<close>

definition binade :: "real \<Rightarrow> int" where
  "binade x = (if 1 \<le> x then bitlen \<lfloor>x\<rfloor> - 1 else - bitlen \<lfloor>1 / x\<rfloor>)"

text \<open>
  The double nearest to a real: the real is scaled by a power of two into the range from
  \<open>2 ^ 52\<close> to \<open>2 ^ 53\<close>, where the doubles are the integers, rounded there, and scaled back.
  The exponent range is not limited; the quotient of two byte counts below \<open>2 ^ 53\<close> and its
  hundredfold are far from overflow and underflow.
\<close>

definition double :: "real \<Rightarrow> real" where
  "double x =
     (let a = \<bar>x\<bar>; e = binade a - 52
      in sgn x * of_int (roundTiesToEven (a / 2 powi e)) * 2 powi e)"

text \<open>
  The byte counts of a snapshot are integers (below \<open>2 ^ 53\<close>, so doubles themselves).
\<close>

record UploadTaskSnapshot =
  bytesTransferred :: int
  totalBytes :: int

text \<open>
  The value handed to \<^verbatim>\<open>updateProgress\<close>. \<^verbatim>\<open>Math.ceil\<close> of a double is exact. With
  \<^verbatim>\<open>totalBytes\<close> 0 the quotient is \<^verbatim>\<open>NaN\<close> or \<^verbatim>\<open>Infinity\<close> and no integer is reported
  (\<open>None\<close>).
\<close>

definition uploadFile_progress :: "UploadTaskSnapshot \<Rightarrow> int option" where
  "uploadFile_progress snapshot =
     (if totalBytes snapshot = 0 then None
      else Some \<lceil>double (double (real_of_int (bytesTransferred snapshot) /
                                   real_of_int (totalBytes snapshot)) * 100)\<rceil>)"

text \<open>
  \<^verbatim>\<open>deleteFile\<close> (lines 30 to 47). What the \<^verbatim>\<open>try\<close> block does is a parameter: it runs
  to its end, or something is thrown; the thrown value is an error object, or
  \<^verbatim>\<open>null\<close>/\<^verbatim>\<open>undefined\<close> (\<open>None\<close>), which \<^verbatim>\<open>error?.code\<close> allows for.
\<close>

datatype try_outcome = Completed | Thrown "Error option"

datatype delete_result = Returned_true | Returned_string string

definition deleteFile :: "try_outcome \<Rightarrow> delete_result" where
  "deleteFile attempt =
     (case attempt of
        Completed \<Rightarrow> Returned_true
      | Thrown err \<Rightarrow>
          if Option.bind err code = Some ''storage/object-not-found'' then Returned_true
          else Returned_string ''Error'')"

section \<open>The credential endpoint (packages/aws/getSignedUrl.example.js)\<close>

datatype json =
    JNull
  | JBool bool
  | JNumber real
  | JString string
  | JArray "json list"
  | JObject "(string \<times> json) list"

text \<open>A JavaScript value in a condition: \<^verbatim>\<open>null\<close>, \<^verbatim>\<open>false\<close>, \<^verbatim>\<open>0\<close> and \<^verbatim>\<open>""\<close> are falsy.\<close>

fun truthy :: "json \<Rightarrow> bool" where
  "truthy JNull = False"
| "truthy (JBool b) = b"
| "truthy (JNumber r) = (r \<noteq> 0)"
| "truthy (JString s) = (s \<noteq> [])"
| "truthy (JArray _) = True"
| "truthy (JObject _) = True"

text \<open>
  Reading a property of a parsed value: of an object, the last member of that name (as
  \<^verbatim>\<open>JSON.parse\<close> keeps the last of duplicate names); of anything else, \<^verbatim>\<open>undefined\<close>.
\<close>

fun property :: "json \<Rightarrow> string \<Rightarrow> json option" where
  "property (JObject members) k = map_of (rev members) k"
| "property _ k = None"

text \<open>\<^verbatim>\<open>a || b\<close> on strings that may be undefined: the empty string is falsy.\<close>

definition or_else :: "string option \<Rightarrow> string option \<Rightarrow> string option" where
  "or_else a b = (case a of Some s \<Rightarrow> if s = [] then b else Some s | None \<Rightarrow> b)"

text \<open>\<^verbatim>\<open>toUpperCase\<close> on the ASCII letters, which is what an HTTP method is made of.\<close>

definition toUpperCase :: "string \<Rightarrow> string" where
  "toUpperCase s =
     map (\<lambda>c. let n = (of_char c :: nat) in if 97 \<le> n \<and> n \<le> 122 then char_of (n - 32) else c) s"

record HttpContext =
  http_method :: "string option"

record RequestContext =
  rc_httpMethod :: "string option"
  http :: "HttpContext option"

record LambdaEvent =
  httpMethod :: "string option"
  requestContext :: "RequestContext option"
  body :: "string option"

definition SECRET :: string where "SECRET = ''SECRET_CODE''"
definition BUCKET :: string where "BUCKET = ''YOUR_BUCKET''"

text \<open>
  The object key of the signed post: the request's \<^verbatim>\<open>fileName\<close> when truthy, else two
  random keys and the content type (\<^verbatim>\<open>unknown-type\<close> when that is falsy, \<open>None\<close>).
\<close>

datatype object_key = Given json | Generated string string "json option"

record PresignedPostParams =
  Fields_key :: object_key
  Fields_acl :: string
  Conditions :: "(string \<times> string \<times> json) list"
  Expires :: nat
  Bucket :: string
  ContentType :: "json option"

text \<open>
  What is handed to \<^verbatim>\<open>callback\<close>: its first argument (an error or \<^verbatim>\<open>null\<close>), and the
  response's status code and what its body is the \<^verbatim>\<open>JSON.stringify\<close> of.
\<close>

datatype response_body =
    The_event
  | Message_and_event string
  | S3_error Error
  | Signed string

record Response =
  callback_error :: "Error option"
  statusCode :: nat
  response_body :: response_body

text \<open>The method the handler reads off the event (line 23).\<close>

definition request_method :: "LambdaEvent \<Rightarrow> string option" where
  "request_method event =
     or_else (httpMethod event)
       (or_else (Option.bind (requestContext event) rc_httpMethod)
          (Option.bind (Option.bind (requestContext event) http) http_method))"

text \<open>The string handed to \<^verbatim>\<open>JSON.parse\<close>: \<^verbatim>\<open>event.body || "{}"\<close> (line 34).\<close>

definition request_body :: "LambdaEvent \<Rightarrow> string" where
  "request_body event = (case or_else (body event) None of Some b \<Rightarrow> b | None \<Rightarrow> ''{}'')"

text \<open>
  \<^verbatim>\<open>exports.handler\<close> (lines 21 to 91). \<^verbatim>\<open>JSON.parse\<close> (\<open>None\<close>: it throws), the
  S3 client's \<^verbatim>\<open>createPresignedPost\<close> and the two results of \<^verbatim>\<open>getRandomKey\<close> are
  parameters.
\<close>

definition handler ::
    "(string \<Rightarrow> json option) \<Rightarrow> (PresignedPostParams \<Rightarrow> Error + string) \<Rightarrow> string \<times> string \<Rightarrow>
     LambdaEvent \<Rightarrow> Response" where
  "handler JSON_parse createPresignedPost randomKeys event =
     (if map_option toUpperCase (request_method event) = Some ''OPTIONS''
      then \<lparr>callback_error = None, statusCode = 200, response_body = The_event\<rparr>
      else
        case JSON_parse (request_body event) of
          None \<Rightarrow>
            \<lparr>callback_error = None, statusCode = 400,
             response_body = Message_and_event ''Missing body''\<rparr>
        | Some parsed \<Rightarrow>
            let body' = (if truthy parsed then parsed else JObject []);
                contentType = property body' ''contentType'';
                fileName = property body' ''fileName'';
                secret = property body' ''secret''
            in if secret \<noteq> Some (JString SECRET)
               then \<lparr>callback_error = None, statusCode = 401,
                     response_body = Message_and_event ''Unauthorized''\<rparr>
               else
                 let contentType' =
                       (case contentType of Some ct \<Rightarrow> if truthy ct then Some ct else None
                        | None \<Rightarrow> None);
                     params =
                       \<lparr>Fields_key =
                          (case fileName of
                             Some fn \<Rightarrow>
                               if truthy fn then Given fn
                               else Generated (fst randomKeys) (snd randomKeys) contentType'
                           | None \<Rightarrow> Generated (fst randomKeys) (snd randomKeys) contentType'),
                        Fields_acl = ''public-read'',
                        Conditions =
                          (case contentType' of
                             Some ct \<Rightarrow> [(''eq'', ''$Content-Type'', ct)]
                           | None \<Rightarrow> []),
                        Expires = 30,
                        Bucket = BUCKET,
                        ContentType = contentType\<rparr>
                 in case createPresignedPost params of
                      Inl err \<Rightarrow>
                        \<lparr>callback_error = Some err, statusCode = 500, response_body = S3_error err\<rparr>
                    | Inr signed \<Rightarrow>
                        \<lparr>callback_error = None, statusCode = 200, response_body = Signed signed\<rparr>)"


section \<open>Words of the specification, and sample values\<close>

text \<open>
  The specification's \<^verbatim>\<open>video/*\<close> and \<^verbatim>\<open>audio/*\<close>: a MIME type matches \<^verbatim>\<open>major/*\<close> when it
  starts with \<^verbatim>\<open>major/\<close>. This definition follows the specification, not the code.
\<close>

definition spec_mime_matches :: "string \<Rightarrow> string \<Rightarrow> bool" where
  "spec_mime_matches major t = prefix (major @ ''/'') t"

definition clip_mp4 :: File where
  "clip_mp4 = \<lparr>name = ''clip.mp4'', type = ''video/mp4''\<rparr>"

definition song_mp3 :: File where
  "song_mp3 = \<lparr>name = ''song.mp3'', type = ''audio/mpeg''\<rparr>"

definition notes_pdf :: File where
  "notes_pdf = \<lparr>name = ''notes.pdf'', type = ''application/pdf''\<rparr>"

definition stream_ram :: File where
  "stream_ram = \<lparr>name = ''stream.ram'', type = ''application/x-pn-realaudio''\<rparr>"

definition unauthorized :: Error where
  "unauthorized = \<lparr>code = Some ''storage/unauthorized'', message = ''User does not have permission''\<rparr>"

definition clip_extraction :: VideoExtraction where
  "clip_extraction =
     \<lparr>screenshot = Some [137, 80, 78, 71],
      video_metadata =
        \<lparr>duration = Some 30, dimensions = Some \<lparr>width = 640, height = 360\<rparr>,
         waveformData = None\<rparr>\<rparr>"

definition clip_stored :: VendorUpload where
  "clip_stored =
     \<lparr>fileURL = ''https://storage.example/clip.mp4'',
      firebase = Some \<lparr>bucket = ''media'', fullPath = ''clip.mp4'', md5Hash = ''0'',
                       generation = ''1''\<rparr>\<rparr>"

definition clip_document :: SanityUpload where
  "clip_document = \<lparr>createdAt = ''2021-01-01T00:00:00Z'', title = Some ''clip''\<rparr>"

text \<open>An upload that fails at the vendor, and is retried once and fails again.\<close>

definition failing_session :: "event list" where
  "failing_session =
     [SELECT_FILE (Some clip_mp4), Error_ExtractVideoMetadata, VENDOR_ERROR unauthorized,
      RETRY, VENDOR_ERROR unauthorized]"

text \<open>The same upload up to the retry.\<close>

definition retried_session :: "event list" where
  "retried_session =
     [SELECT_FILE (Some clip_mp4), Error_ExtractVideoMetadata, VENDOR_ERROR unauthorized, RETRY]"

text \<open>An upload that goes through.\<close>

definition successful_session :: "event list" where
  "successful_session =
     [SELECT_FILE (Some clip_mp4), Done_ExtractVideoMetadata clip_extraction,
      VENDOR_PROGRESS 100, VENDOR_DONE clip_stored, Done_SanityUpload clip_document]"

text \<open>
  The specification's progress value: the ceiling of bytesTransferred / totalBytes times
  100, in exact arithmetic. This definition follows the specification, not the code.
\<close>

definition spec_progress :: "UploadTaskSnapshot \<Rightarrow> int" where
  "spec_progress snapshot =
     \<lceil>real_of_int (bytesTransferred snapshot) / real_of_int (totalBytes snapshot) * 100\<rceil>"

text \<open>What the audio service resolves with for the second file when the waveform fails.\<close>

definition song_extraction :: AudioExtraction where
  "song_extraction =
     \<lparr>audio_metadata = \<lparr>duration = Some 12, dimensions = None, waveformData = None\<rparr>\<rparr>"

text \<open>
  A second upload after a reset: the first one goes through, the second one fails at the
  vendor and is retried.
\<close>

definition second_session :: "event list" where
  "second_session =
     successful_session @
     [RESET_UPLOAD, SELECT_FILE (Some song_mp3), Done_ExtractAudioMetadata song_extraction,
      VENDOR_ERROR unauthorized, RETRY]"

text \<open>
  A stand-in for \<^verbatim>\<open>JSON.parse\<close> in the examples. It knows the empty object and the
  object with a \<^verbatim>\<open>secret\<close> member, and agrees with \<^verbatim>\<open>JSON.parse\<close> on every string the
  examples give it: the empty string and \<^verbatim>\<open>not json\<close> are syntax errors.
\<close>

definition parse_example :: "string \<Rightarrow> json option" where
  "parse_example s =
     (if s = ''{}'' then Some (JObject [])
      else if s = ''{\"secret\":\"SECRET_CODE\"}'' then Some (JObject [(''secret'', JString ''SECRET_CODE'')])
      else if s = ''{\"secret\":\"guess\"}'' then Some (JObject [(''secret'', JString ''guess'')])
      else None)"

definition post_empty_body :: LambdaEvent where
  "post_empty_body = \<lparr>httpMethod = Some ''POST'', requestContext = None, body = Some []\<rparr>"

definition options_preflight :: LambdaEvent where
  "options_preflight =
     \<lparr>httpMethod = None,
      requestContext = Some \<lparr>rc_httpMethod = None, http = Some \<lparr>http_method = Some ''options''\<rparr>\<rparr>,
      body = None\<rparr>"

definition post_not_json :: LambdaEvent where
  "post_not_json = \<lparr>httpMethod = Some ''POST'', requestContext = None, body = Some ''not json''\<rparr>"

definition post_wrong_secret :: LambdaEvent where
  "post_wrong_secret =
     \<lparr>httpMethod = Some ''POST'', requestContext = None, body = Some ''{\"secret\":\"guess\"}''\<rparr>"

definition s3_example :: "PresignedPostParams \<Rightarrow> Error + string" where
  "s3_example params = Inr ''https://s3.example/signed''"


section \<open>Facts about the model used below\<close>

lemmas machine_defs = transition_def state_on_def root_on_def select_cond_def
  hasUploadedToVendor_def exit_effects_def entry_effects_def

lemma str_includes_iff: "str_includes s sub \<longleftrightarrow> (\<exists>ps ss. s = ps @ sub @ ss)"
proof (induction s)
  case Nil
  then show ?case by auto
next
  case (Cons c cs)
  show ?case
  proof
    assume "str_includes (c # cs) sub"
    then consider "prefix sub (c # cs)" | "str_includes cs sub" by auto
    then show "\<exists>ps ss. c # cs = ps @ sub @ ss"
    proof cases
      case 1
      then obtain ss where "c # cs = sub @ ss" by (auto simp: prefix_def)
      then have "c # cs = [] @ sub @ ss" by simp
      then show ?thesis by blast
    next
      case 2
      then obtain ps ss where "cs = ps @ sub @ ss" using Cons.IH by blast
      then have "c # cs = (c # ps) @ sub @ ss" by simp
      then show ?thesis by blast
    qed
  next
    assume "\<exists>ps ss. c # cs = ps @ sub @ ss"
    then obtain ps ss where eq: "c # cs = ps @ sub @ ss" by blast
    show "str_includes (c # cs) sub"
    proof (cases ps)
      case Nil
      then have "prefix sub (c # cs)" using eq by (simp add: prefix_def)
      then show ?thesis by simp
    next
      case (Cons p ps')
      then have "cs = ps' @ sub @ ss" using eq by simp
      then have "str_includes cs sub" using Cons.IH by blast
      then show ?thesis by simp
    qed
  qed
qed

lemma spec_mime_matches_includes: "spec_mime_matches major t \<Longrightarrow> str_includes t major"
  unfolding spec_mime_matches_def prefix_def str_includes_iff
  by (metis append.assoc append_Nil)

lemma run_reachable:
  "reachable s ctx \<Longrightarrow> reachable (fst (run (s, ctx) es)) (snd (run (s, ctx) es))"
proof (induction es arbitrary: s ctx)
  case Nil
  then show ?case by simp
next
  case (Cons e es)
  obtain s' c' fx where step: "transition s ctx e = (s', c', fx)"
    by (cases "transition s ctx e") auto
  with Cons.prems have "reachable s' c'" by (rule reachable_step)
  then have "reachable (fst (run (s', c') es)) (snd (run (s', c') es))" by (rule Cons.IH)
  with step show ?case by simp
qed

lemma run_failing_session:
  "run (idle, INITIAL_CONTEXT) failing_session =
     (failure,
      INITIAL_CONTEXT\<lparr>retries := 1, ctx_file := Some clip_mp4,
        error := Some \<lparr>cause = Some unauthorized, error_title = Some ''Failed to upload'',
                       subtitle = Some (message unauthorized)\<rparr>\<rparr>)"
  by (simp add: failing_session_def machine_defs clip_mp4_def INITIAL_CONTEXT_def)

lemma run_successful_session:
  "run (idle, INITIAL_CONTEXT) successful_session =
     (success,
      INITIAL_CONTEXT\<lparr>vendorUploadProgress := 100, ctx_file := Some clip_mp4,
        fileMetadata := Some (video_metadata clip_extraction),
        vendorUpload := Some clip_stored, sanityUpload := Some clip_document,
        videoScreenshot := screenshot clip_extraction\<rparr>)"
  by (simp add: successful_session_def machine_defs clip_mp4_def INITIAL_CONTEXT_def)

lemma transition_failure_error:
  "error (fst (snd (transition failure ctx e))) = error ctx"
  by (cases e) (auto simp: machine_defs)

lemma transition_into_failure:
  "transition s ctx e = (failure, ctx', fx) \<Longrightarrow> error ctx \<noteq> None \<or> s \<noteq> failure
   \<Longrightarrow> error ctx' \<noteq> None"
  by (cases s; cases e) (auto simp: machine_defs split: if_splits)

lemma reachable_failure_error:
  "reachable s ctx \<Longrightarrow> s = failure \<longrightarrow> error ctx \<noteq> None"
proof (induction rule: reachable.induct)
  case reachable_init
  then show ?case by simp
next
  case (reachable_step s ctx e s' ctx' fx)
  then show ?case using transition_into_failure by blast
qed

lemma reachable_run_init:
  "reachable (fst (run (idle, INITIAL_CONTEXT) es)) (snd (run (idle, INITIAL_CONTEXT) es))"
  using reachable_init by (rule run_reachable)

lemma run_retried_session:
  "run (idle, INITIAL_CONTEXT) retried_session =
     (uploadingToVendor,
      INITIAL_CONTEXT\<lparr>retries := 1, ctx_file := Some clip_mp4,
        error := Some \<lparr>cause = Some unauthorized, error_title = Some ''Failed to upload'',
                       subtitle = Some (message unauthorized)\<rparr>\<rparr>)"
  by (simp add: retried_session_def machine_defs clip_mp4_def INITIAL_CONTEXT_def)

lemma transition_reset_upload:
  "transition success ctx RESET_UPLOAD = (idle, ctx\<lparr>retries := 0, vendorUploadProgress := 0\<rparr>, [])"
  by (simp add: machine_defs INITIAL_CONTEXT_def)

section \<open>Retrying from the failure state\<close>

text \<open>
  Claim C1. In \<^verbatim>\<open>failure\<close>, whatever the context, \<^verbatim>\<open>RETRY\<close> leads to \<^verbatim>\<open>uploadingToSanity\<close>
  when \<^verbatim>\<open>vendorUpload\<close> is present and to \<^verbatim>\<open>uploadingToVendor\<close> when it is absent. In
  both cases the new context is the old one with \<^verbatim>\<open>retries\<close> one higher and nothing else
  changed, and the one service started is the content store's when \<^verbatim>\<open>vendorUpload\<close> is
  present (the vendor's upload is not started again), the vendor's otherwise.
\<close>

theorem failure_retry:
  "transition failure context RETRY =
     (if vendorUpload context \<noteq> None then uploadingToSanity else uploadingToVendor,
      context\<lparr>retries := retries context + 1\<rparr>,
      [Start (if vendorUpload context \<noteq> None then SanityUpload else FirebaseUpload)])"
  by (simp add: machine_defs)

section \<open>Selecting a file\<close>

text \<open>
  Claim C2, as the code has it. The two guards test whether the MIME type \<^emph>\<open>includes\<close>
  the word \<^verbatim>\<open>video\<close> or \<^verbatim>\<open>audio\<close>, anywhere. For every file whose type includes neither,
  \<^verbatim>\<open>SELECT_FILE\<close> in \<^verbatim>\<open>idle\<close> or \<^verbatim>\<open>failure\<close> leaves the state and the whole context as
  they are, and its one effect is the rejection notice \<^verbatim>\<open>invalidFileToast\<close>.
\<close>

theorem select_file_rejected:
  assumes "s = idle \<or> s = failure"
    and "\<not> str_includes (type f) ''video''"
    and "\<not> str_includes (type f) ''audio''"
  shows "transition s context (SELECT_FILE (Some f)) = (s, context, [invalidFileToast])"
  using assms by (auto simp: machine_defs)

theorem select_file_rejected_witness:
  "(idle = idle \<or> idle = failure) \<and> \<not> str_includes (type notes_pdf) ''video'' \<and>
   \<not> str_includes (type notes_pdf) ''audio'' \<and>
   transition idle INITIAL_CONTEXT (SELECT_FILE (Some notes_pdf)) =
     (idle, INITIAL_CONTEXT, [invalidFileToast])"
proof -
  have v: "\<not> str_includes (type notes_pdf) ''video''" by (simp add: notes_pdf_def)
  have a: "\<not> str_includes (type notes_pdf) ''audio''" by (simp add: notes_pdf_def)
  have s: "idle = idle \<or> idle = failure" by simp
  show ?thesis using select_file_rejected [OF s v a, of INITIAL_CONTEXT] v a by simp
qed

text \<open>
  With \<^verbatim>\<open>video/*\<close> and \<^verbatim>\<open>audio/*\<close> read as patterns the statement fails: the type
  \<^verbatim>\<open>application/x-pn-realaudio\<close> matches neither pattern, and a file of that type is
  accepted from \<^verbatim>\<open>idle\<close> as audio.
\<close>

theorem select_file_realaudio_counterexample:
  "\<not> spec_mime_matches ''video'' (type stream_ram) \<and>
   \<not> spec_mime_matches ''audio'' (type stream_ram) \<and>
   transition idle INITIAL_CONTEXT (SELECT_FILE (Some stream_ram)) =
     (extractingAudioMetadata, INITIAL_CONTEXT\<lparr>ctx_file := Some stream_ram\<rparr>,
      [Start ExtractAudioMetadata])"
  by (simp add: spec_mime_matches_def stream_ram_def machine_defs)

text \<open>
  Claim C4, as the code has it. An accepted \<^verbatim>\<open>SELECT_FILE\<close> (a file whose type includes
  \<^verbatim>\<open>video\<close> or \<^verbatim>\<open>audio\<close>, selected in \<^verbatim>\<open>idle\<close> or \<^verbatim>\<open>failure\<close>) assigns the file and
  nothing else: \<^verbatim>\<open>retries\<close> keeps the value it had before the selection.
\<close>

theorem select_file_accepted:
  assumes "s = idle \<or> s = failure"
    and "str_includes (type f) ''video'' \<or> str_includes (type f) ''audio''"
  shows "transition s ctx (SELECT_FILE (Some f)) =
           (if str_includes (type f) ''video'' then extractingVideoMetadata
            else extractingAudioMetadata,
            ctx\<lparr>ctx_file := Some f\<rparr>,
            [Start (if str_includes (type f) ''video'' then ExtractVideoMetadata
                    else ExtractAudioMetadata)]) \<and>
         retries (fst (snd (transition s ctx (SELECT_FILE (Some f))))) = retries ctx"
  using assms by (auto simp: machine_defs)

theorem select_file_accepted_witness:
  "(failure = idle \<or> failure = failure) \<and>
   (str_includes (type song_mp3) ''video'' \<or> str_includes (type song_mp3) ''audio'') \<and>
   transition failure (INITIAL_CONTEXT\<lparr>retries := 2\<rparr>) (SELECT_FILE (Some song_mp3)) =
     (extractingAudioMetadata, INITIAL_CONTEXT\<lparr>retries := 2, ctx_file := Some song_mp3\<rparr>,
      [Start ExtractAudioMetadata]) \<and>
   retries (fst (snd (transition failure (INITIAL_CONTEXT\<lparr>retries := 2\<rparr>)
     (SELECT_FILE (Some song_mp3))))) = 2"
proof -
  have s: "failure = idle \<or> failure = failure" by simp
  have m: "str_includes (type song_mp3) ''video'' \<or> str_includes (type song_mp3) ''audio''"
    by (simp add: song_mp3_def)
  have v: "\<not> str_includes (type song_mp3) ''video''" by (simp add: song_mp3_def)
  show ?thesis
    using select_file_accepted [OF s m, of "INITIAL_CONTEXT\<lparr>retries := 2\<rparr>"] s m v
    by (simp add: INITIAL_CONTEXT_def)
qed

text \<open>
  So \<^verbatim>\<open>retries\<close> is not 0 after every accepted selection: after an upload that failed, was
  retried and failed again, selecting another file leaves \<^verbatim>\<open>retries\<close> at 1.
\<close>

theorem select_file_keeps_retries_counterexample:
  "fst (run (idle, INITIAL_CONTEXT) failing_session) = failure \<and>
   str_includes (type song_mp3) ''audio'' \<and>
   fst (transition failure (snd (run (idle, INITIAL_CONTEXT) failing_session))
          (SELECT_FILE (Some song_mp3))) = extractingAudioMetadata \<and>
   retries (fst (snd (transition failure (snd (run (idle, INITIAL_CONTEXT) failing_session))
          (SELECT_FILE (Some song_mp3))))) = 1"
  unfolding run_failing_session by (simp add: machine_defs song_mp3_def INITIAL_CONTEXT_def)

section \<open>The error field\<close>

text \<open>
  Claim C3, as the code has it. In every reachable \<^verbatim>\<open>failure\<close> state the \<^verbatim>\<open>error\<close> field is
  present. No event received in \<^verbatim>\<open>failure\<close> changes it, in particular none of the
  transitions that leave \<^verbatim>\<open>failure\<close> (accepted \<^verbatim>\<open>SELECT_FILE\<close>, \<^verbatim>\<open>RETRY\<close>,
  \<^verbatim>\<open>CANCEL_INPUT\<close>): the error goes along into the state they lead to.
\<close>

theorem error_kept_after_failure:
  "(reachable s ctx \<and> s = failure \<longrightarrow> error ctx \<noteq> None) \<and>
   error (fst (snd (transition failure ctx' e))) = error ctx'"
  using reachable_failure_error [of s ctx] transition_failure_error [of ctx' e]
  by blast

theorem error_kept_after_failure_witness:
  "reachable failure (snd (run (idle, INITIAL_CONTEXT) failing_session)) \<and>
   error (snd (run (idle, INITIAL_CONTEXT) failing_session)) \<noteq> None \<and>
   error (fst (snd (transition failure (snd (run (idle, INITIAL_CONTEXT) failing_session)) RETRY)))
     = error (snd (run (idle, INITIAL_CONTEXT) failing_session)) \<and>
   fst (transition failure (snd (run (idle, INITIAL_CONTEXT) failing_session)) RETRY)
     = uploadingToVendor"
proof -
  have r: "reachable failure (snd (run (idle, INITIAL_CONTEXT) failing_session))"
    using reachable_run_init [of failing_session] by (simp add: run_failing_session)
  have t: "fst (transition failure (snd (run (idle, INITIAL_CONTEXT) failing_session)) RETRY)
     = uploadingToVendor"
    unfolding run_failing_session by (simp add: machine_defs INITIAL_CONTEXT_def)
  show ?thesis
    using r t
      error_kept_after_failure [of failure "snd (run (idle, INITIAL_CONTEXT) failing_session)"
        "snd (run (idle, INITIAL_CONTEXT) failing_session)" RETRY]
    by blast
qed

text \<open>
  So \<^verbatim>\<open>error\<close> is present in reachable states other than \<^verbatim>\<open>failure\<close>: after a failed
  vendor upload and a retry the machine is in \<^verbatim>\<open>uploadingToVendor\<close> with the error of the
  failed attempt still in its context.
\<close>

theorem error_outside_failure_counterexample:
  "reachable (fst (run (idle, INITIAL_CONTEXT) retried_session))
     (snd (run (idle, INITIAL_CONTEXT) retried_session)) \<and>
   fst (run (idle, INITIAL_CONTEXT) retried_session) = uploadingToVendor \<and>
   error (snd (run (idle, INITIAL_CONTEXT) retried_session)) \<noteq> None"
proof -
  have "reachable (fst (run (idle, INITIAL_CONTEXT) retried_session))
     (snd (run (idle, INITIAL_CONTEXT) retried_session))"
    by (rule reachable_run_init)
  then show ?thesis by (simp add: run_retried_session)
qed

section \<open>Resetting after success\<close>

text \<open>
  Claim C5. \<^verbatim>\<open>RESET_UPLOAD\<close> in \<^verbatim>\<open>success\<close> leads to \<^verbatim>\<open>idle\<close> and sets \<^verbatim>\<open>retries\<close> and
  \<^verbatim>\<open>vendorUploadProgress\<close> to 0, but the context is not the initial one: after an upload
  that went through, the file, its metadata, the screenshot and both upload results are
  still there after the reset, since the assigned object \<^verbatim>\<open>{...INITIAL_CONTEXT}\<close> is
  merged into the context and owns none of these properties.
\<close>

theorem reset_upload_keeps_results:
  "run (idle, INITIAL_CONTEXT) (successful_session @ [RESET_UPLOAD]) =
     (idle,
      INITIAL_CONTEXT\<lparr>ctx_file := Some clip_mp4,
        fileMetadata := Some (video_metadata clip_extraction),
        vendorUpload := Some clip_stored, sanityUpload := Some clip_document,
        videoScreenshot := screenshot clip_extraction\<rparr>) \<and>
   snd (run (idle, INITIAL_CONTEXT) (successful_session @ [RESET_UPLOAD])) \<noteq> INITIAL_CONTEXT"
  by (simp add: successful_session_def machine_defs clip_mp4_def INITIAL_CONTEXT_def)

text \<open>
  What stays behind is used: in a second upload after the reset, a retry after a failed
  vendor upload finds the first upload's \<^verbatim>\<open>vendorUpload\<close> and goes on to the content store
  with it.
\<close>

lemma retry_after_reset:
  "run (idle, INITIAL_CONTEXT) second_session =
     (uploadingToSanity,
      INITIAL_CONTEXT\<lparr>retries := 1, ctx_file := Some song_mp3,
        fileMetadata := Some (audio_metadata song_extraction),
        vendorUpload := Some clip_stored, sanityUpload := Some clip_document,
        videoScreenshot := screenshot clip_extraction,
        error := Some \<lparr>cause = Some unauthorized, error_title = Some ''Failed to upload'',
                       subtitle = Some (message unauthorized)\<rparr>\<rparr>)"
  by (simp add: second_session_def successful_session_def machine_defs clip_mp4_def song_mp3_def
      INITIAL_CONTEXT_def)

section \<open>A failed vendor upload\<close>

text \<open>
  Claim C6. \<^verbatim>\<open>VENDOR_ERROR\<close> in \<^verbatim>\<open>uploadingToVendor\<close> leads to \<^verbatim>\<open>failure\<close> and stores an
  error whose cause is the vendor's error, whose title is \<^verbatim>\<open>Failed to upload\<close>, and whose
  subtitle is the credentials hint when \<^verbatim>\<open>retries\<close> is greater than 1 and the vendor
  error's message otherwise; nothing else in the context changes.
\<close>

theorem vendor_error_transition:
  "transition uploadingToVendor ctx (VENDOR_ERROR err) =
     (failure,
      ctx\<lparr>error := Some
        \<lparr>cause = Some err,
         error_title = Some ''Failed to upload'',
         subtitle = Some
           (if 1 < retries ctx
            then ''Make sure the right credentials are set in the plugins' settings.''
            else message err)\<rparr>\<rparr>,
      [Stop FirebaseUpload])"
  by (simp add: machine_defs)


section \<open>Audio metadata extraction\<close>

text \<open>
  Claim C7. The audio metadata service rejects exactly when the context has no file or the
  file's type does not include \<^verbatim>\<open>audio\<close>. For an audio file on which the waveform
  computation throws, it resolves with the metadata it has by then (the duration if the
  media element has reported it, and no waveform), and the machine stores that metadata
  and goes on to \<^verbatim>\<open>uploadingToVendor\<close>, where the vendor upload is started.
\<close>

theorem audio_extraction_settles:
  "(ExtractAudioMetadata_src ctx loaded waveform = Rejected) =
     (ctx_file ctx = None \<or> (\<exists>f. ctx_file ctx = Some f \<and> \<not> str_includes (type f) ''audio'')) \<and>
   (ctx_file ctx = Some f \<and> str_includes (type f) ''audio'' \<longrightarrow>
      ExtractAudioMetadata_src ctx loaded Throws =
        Resolved \<lparr>audio_metadata = \<lparr>duration = loaded, dimensions = None, waveformData = None\<rparr>\<rparr> \<and>
      extractingAudioMetadata_settled ctx loaded Throws =
        Some (uploadingToVendor,
              ctx\<lparr>fileMetadata := Some \<lparr>duration = loaded, dimensions = None, waveformData = None\<rparr>\<rparr>,
              [Stop ExtractAudioMetadata, Start FirebaseUpload]))"
proof (intro conjI impI)
  show "(ExtractAudioMetadata_src ctx loaded waveform = Rejected) =
     (ctx_file ctx = None \<or> (\<exists>f. ctx_file ctx = Some f \<and> \<not> str_includes (type f) ''audio''))"
    by (cases waveform) (auto simp: ExtractAudioMetadata_src_def Let_def split: option.splits)
next
  assume a: "ctx_file ctx = Some f \<and> str_includes (type f) ''audio''"
  then show r: "ExtractAudioMetadata_src ctx loaded Throws =
        Resolved \<lparr>audio_metadata = \<lparr>duration = loaded, dimensions = None, waveformData = None\<rparr>\<rparr>"
    by (simp add: ExtractAudioMetadata_src_def)
  show "extractingAudioMetadata_settled ctx loaded Throws =
        Some (uploadingToVendor,
              ctx\<lparr>fileMetadata := Some \<lparr>duration = loaded, dimensions = None, waveformData = None\<rparr>\<rparr>,
              [Stop ExtractAudioMetadata, Start FirebaseUpload])"
    unfolding extractingAudioMetadata_settled_def r
    by (simp add: transition_def state_on_def exit_effects_def entry_effects_def)
qed

theorem audio_extraction_settles_witness:
  "ctx_file (INITIAL_CONTEXT\<lparr>ctx_file := Some song_mp3\<rparr>) = Some song_mp3 \<and>
   str_includes (type song_mp3) ''audio'' \<and>
   ExtractAudioMetadata_src (INITIAL_CONTEXT\<lparr>ctx_file := Some song_mp3\<rparr>) (Some 12) Throws =
     Resolved \<lparr>audio_metadata = \<lparr>duration = Some 12, dimensions = None, waveformData = None\<rparr>\<rparr> \<and>
   extractingAudioMetadata_settled (INITIAL_CONTEXT\<lparr>ctx_file := Some song_mp3\<rparr>) (Some 12) Throws =
     Some (uploadingToVendor,
           INITIAL_CONTEXT\<lparr>ctx_file := Some song_mp3,
             fileMetadata := Some \<lparr>duration = Some 12, dimensions = None, waveformData = None\<rparr>\<rparr>,
           [Stop ExtractAudioMetadata, Start FirebaseUpload])"
proof -
  have f: "ctx_file (INITIAL_CONTEXT\<lparr>ctx_file := Some song_mp3\<rparr>) = Some song_mp3" by simp
  have a: "str_includes (type song_mp3) ''audio''" by (simp add: song_mp3_def)
  show ?thesis
    using f a
      audio_extraction_settles [of "INITIAL_CONTEXT\<lparr>ctx_file := Some song_mp3\<rparr>" "Some 12" Throws song_mp3]
    by simp
qed

section \<open>Progress reported by the Firebase adapter\<close>

text \<open>Rounding to the nearest integer is off by a half at most, and keeps to the side of an integer.\<close>

lemma rte_error: "\<bar>of_int (roundTiesToEven y) - y\<bar> \<le> 1 / 2"
  unfolding roundTiesToEven_def Let_def by (auto; linarith)

lemma rte_le: "y \<le> of_int m \<Longrightarrow> roundTiesToEven y \<le> m"
proof -
  assume a: "y \<le> of_int m"
  then have f: "\<lfloor>y\<rfloor> \<le> m" by (simp add: floor_le_iff) 
  show ?thesis
  proof (cases "\<lfloor>y\<rfloor> = m")
    case True
    then have "y = of_int \<lfloor>y\<rfloor>" using a of_int_floor_le [of y] by linarith
    then show ?thesis using True by (simp add: roundTiesToEven_def Let_def)
  next
    case False
    then have "\<lfloor>y\<rfloor> + 1 \<le> m" using f by simp
    then show ?thesis by (auto simp: roundTiesToEven_def Let_def)
  qed
qed

lemma rte_ge: "of_int m \<le> y \<Longrightarrow> m \<le> roundTiesToEven y"
proof -
  assume "of_int m \<le> y"
  then have "m \<le> \<lfloor>y\<rfloor>" by (simp add: le_floor_iff)
  then show ?thesis by (auto simp: roundTiesToEven_def Let_def)
qed

text \<open>The scaled real lies between \<open>2 ^ 52\<close> and \<open>2 ^ 53\<close>.\<close>

lemma binade_bounds:
  assumes "0 < x"
  shows "2 powi binade x \<le> x \<and> x \<le> 2 powi (binade x + 1)"
proof (cases "1 \<le> x")
  case True
  define n where "n = \<lfloor>x\<rfloor>"
  have n1: "0 < n" using True by (simp add: n_def)
  have k1: "1 \<le> bitlen n" using n1 bitlen_eq_zero_iff [of n] bitlen_nonneg [of n] by linarith
  from bitlen_bounds [OF n1] have lo: "2 ^ nat (bitlen n - 1) \<le> n" and hi: "n < 2 ^ nat (bitlen n)"
    by simp_all
  have "real_of_int (2 ^ nat (bitlen n - 1)) \<le> real_of_int n" using lo by (simp only: of_int_le_iff)
  also have "\<dots> \<le> x" by (simp add: n_def)
  finally have a: "2 powi (bitlen n - 1) \<le> x" using k1 by (simp add: power_int_nonneg_exp)
  have "n + 1 \<le> 2 ^ nat (bitlen n)" using hi by simp
  then have "real_of_int (n + 1) \<le> real_of_int (2 ^ nat (bitlen n))" by (simp only: of_int_le_iff)
  moreover have "x \<le> real_of_int (n + 1)" unfolding n_def by linarith
  ultimately have b: "x \<le> 2 powi (bitlen n)" using k1 by (simp add: power_int_nonneg_exp)
  show ?thesis using a b True by (simp add: binade_def n_def)
next
  case False
  define n where "n = \<lfloor>1 / x\<rfloor>"
  have ix: "1 < 1 / x" using False assms by simp
  have n1: "0 < n" using ix by (simp add: n_def)
  have k1: "1 \<le> bitlen n" using n1 bitlen_eq_zero_iff [of n] bitlen_nonneg [of n] by linarith
  from bitlen_bounds [OF n1] have lo: "2 ^ nat (bitlen n - 1) \<le> n" and hi: "n < 2 ^ nat (bitlen n)"
    by simp_all
  have "real_of_int (2 ^ nat (bitlen n - 1)) \<le> real_of_int n" using lo by (simp only: of_int_le_iff)
  also have "\<dots> \<le> 1 / x" by (simp add: n_def)
  finally have "2 powi (bitlen n - 1) \<le> 1 / x" using k1 by (simp add: power_int_nonneg_exp)
  then have "x * 2 powi (bitlen n - 1) \<le> 1" using assms by (simp add: field_simps)
  then have "x \<le> 1 / 2 powi (bitlen n - 1)" by (simp add: field_simps)
  then have b: "x \<le> 2 powi (- bitlen n + 1)"
    using power_int_minus_divide [of "2::real" "bitlen n - 1"] by simp
  have "n + 1 \<le> 2 ^ nat (bitlen n)" using hi by simp
  then have "real_of_int (n + 1) \<le> real_of_int (2 ^ nat (bitlen n))" by (simp only: of_int_le_iff)
  moreover have "1 / x \<le> real_of_int (n + 1)" unfolding n_def by linarith
  ultimately have "1 / x \<le> 2 powi (bitlen n)" using k1 by (simp add: power_int_nonneg_exp)
  then have "1 \<le> x * 2 powi (bitlen n)" using assms by (simp add: field_simps)
  then have "1 / 2 powi (bitlen n) \<le> x" by (simp add: field_simps)
  then have a: "2 powi (- bitlen n) \<le> x"
    using power_int_minus_divide [of "2::real" "bitlen n"] by simp
  show ?thesis using a b False by (simp add: binade_def n_def)
qed

lemma scaled_bounds:
  assumes "0 < x"
  shows "2 ^ 52 \<le> x / 2 powi (binade x - 52) \<and> x / 2 powi (binade x - 52) \<le> 2 ^ 53"
proof -
  have p: "(0::real) < 2 powi (binade x - 52)" by simp
  have e1: "(2::real) powi binade x = 2 ^ 52 * 2 powi (binade x - 52)"
    using power_int_add [of "2::real" 52 "binade x - 52"] by simp
  have e2: "(2::real) powi (binade x + 1) = 2 ^ 53 * 2 powi (binade x - 52)"
    using power_int_add [of "2::real" 53 "binade x - 52"] by (simp add: add.commute)
  from binade_bounds [OF assms] e1 e2
  have "2 ^ 52 * 2 powi (binade x - 52) \<le> x" and "x \<le> 2 ^ 53 * 2 powi (binade x - 52)" by simp_all
  then show ?thesis using p by (simp add: pos_le_divide_eq pos_divide_le_eq)
qed

lemma double_pos:
  "0 < x \<Longrightarrow> double x = of_int (roundTiesToEven (x / 2 powi (binade x - 52))) * 2 powi (binade x - 52)"
  by (simp add: double_def Let_def)

lemma double_zero: "double 0 = 0"
  by (simp add: double_def)

lemma double_nonneg: "0 \<le> x \<Longrightarrow> 0 \<le> double x"
proof (cases "x = 0")
  case True
  then show ?thesis by (simp add: double_zero)
next
  case False
  assume "0 \<le> x"
  with False have x: "0 < x" by simp
  have "(0::real) \<le> x / 2 powi (binade x - 52)" using x by simp
  then have "0 \<le> roundTiesToEven (x / 2 powi (binade x - 52))" using rte_ge [of 0] by simp
  then show ?thesis using x by (simp add: double_pos)
qed

text \<open>The relative error of rounding to a double is at most \<open>2 ^ - 53\<close>.\<close>

lemma double_error:
  assumes "0 \<le> x"
  shows "\<bar>double x - x\<bar> \<le> x / 2 ^ 53"
proof (cases "x = 0")
  case True
  then show ?thesis by (simp add: double_zero)
next
  case False
  with assms have x: "0 < x" by simp
  define s :: real where "s = 2 powi (binade x - 52)"
  define y where "y = x / s"
  have s: "0 < s" by (simp add: s_def)
  have xy: "x = y * s" using s by (simp add: y_def)
  have y: "2 ^ 52 \<le> y" using scaled_bounds [OF x] by (simp add: y_def s_def)
  have "\<bar>of_int (roundTiesToEven y) - y\<bar> \<le> 1 / 2" by (rule rte_error)
  also have "\<dots> \<le> y / 2 ^ 53" using y by simp
  finally have "\<bar>of_int (roundTiesToEven y) - y\<bar> * s \<le> y / 2 ^ 53 * s"
    using s by (simp add: mult_right_mono)
  moreover have dx: "double x = of_int (roundTiesToEven y) * s"
    using x by (simp add: double_pos y_def s_def)
  have "double x - x = (of_int (roundTiesToEven y) - y) * s"
    unfolding dx by (subst xy) (simp add: left_diff_distrib)
  then have "\<bar>double x - x\<bar> = \<bar>of_int (roundTiesToEven y) - y\<bar> * s"
    using s by (simp add: abs_mult)
  moreover have "y / 2 ^ 53 * s = x / 2 ^ 53" by (subst xy) simp
  ultimately show ?thesis by simp
qed

text \<open>Rounding does not cross a double: what is below a double stays below it.\<close>

lemma double_le_representable:
  assumes x: "0 < x" and le: "x \<le> of_int m * 2 powi e" and m: "2 ^ 52 \<le> m" "m < 2 ^ 53"
  shows "double x \<le> of_int m * 2 powi e"
proof -
  define d where "d = binade x - 52"
  define y where "y = x / 2 powi d"
  have sb: "2 ^ 52 \<le> y" "y \<le> 2 ^ 53" using scaled_bounds [OF x] by (simp_all add: y_def d_def)
  have xy: "x = y * 2 powi d" by (simp add: y_def)
  have dx: "double x = of_int (roundTiesToEven y) * 2 powi d"
    using x by (simp add: double_pos y_def d_def)
  have mr: "real_of_int m < 2 ^ 53" "(2::real) ^ 52 \<le> real_of_int m"
    using m by (metis of_int_less_iff of_int_numeral of_int_power, metis of_int_le_iff of_int_numeral of_int_power)
  consider "d < e" | "d = e" | "e < d" by linarith
  then show ?thesis
  proof cases
    case 1
    have "roundTiesToEven y \<le> 2 ^ 53" using rte_le [of y "2 ^ 53"] sb by simp
    then have "real_of_int (roundTiesToEven y) \<le> 2 ^ 53"
      by (metis of_int_le_iff of_int_numeral of_int_power)
    then have "double x \<le> 2 ^ 53 * 2 powi d" unfolding dx by (simp add: mult_right_mono)
    also have "\<dots> = 2 ^ 52 * 2 powi (d + 1)"
      using power_int_add [of "2::real" d 1] by simp
    also have "\<dots> \<le> 2 ^ 52 * 2 powi e"
      using 1 power_int_increasing [of "d + 1" e "2::real"] by simp
    also have "\<dots> \<le> of_int m * 2 powi e" using mr by (simp add: mult_right_mono)
    finally show ?thesis .
  next
    case 2
    have "y * 2 powi e \<le> of_int m * 2 powi e" using le xy 2 by simp
    then have "y \<le> of_int m" by simp
    then have "roundTiesToEven y \<le> m" by (rule rte_le)
    then have "real_of_int (roundTiesToEven y) \<le> of_int m" by (simp only: of_int_le_iff)
    then show ?thesis unfolding dx 2 by (simp add: mult_right_mono)
  next
    case 3
    have "real_of_int m * 2 powi e < 2 ^ 53 * 2 powi e" using mr by simp
    also have "\<dots> = 2 ^ 52 * 2 powi (e + 1)"
      using power_int_add [of "2::real" e 1] by simp
    also have "\<dots> \<le> 2 ^ 52 * 2 powi d"
      using 3 power_int_increasing [of "e + 1" d "2::real"] by simp
    also have "\<dots> \<le> y * 2 powi d" using sb by (simp add: mult_right_mono)
    finally have "of_int m * 2 powi e < x" using xy by simp
    with le show ?thesis by simp
  qed
qed

lemma double_le_1: "0 \<le> x \<Longrightarrow> x \<le> 1 \<Longrightarrow> double x \<le> 1"
proof (cases "x = 0")
  case True
  then show ?thesis by (simp add: double_zero)
next
  case False
  assume "0 \<le> x" "x \<le> 1"
  with False have "0 < x" "x \<le> of_int (2 ^ 52) * 2 powi (- 52)"
    by (simp_all add: power_int_minus_divide)
  then have "double x \<le> of_int (2 ^ 52) * 2 powi (- 52)"
    by (rule double_le_representable) simp_all
  then show ?thesis by (simp add: power_int_minus_divide)
qed

lemma double_le_100: "0 \<le> x \<Longrightarrow> x \<le> 100 \<Longrightarrow> double x \<le> 100"
proof (cases "x = 0")
  case True
  then show ?thesis by (simp add: double_zero)
next
  case False
  have c: "real_of_int (25 * 2 ^ 48) * 2 powi (- 46) = 100"
    by (simp add: power_int_minus_divide)
  assume "0 \<le> x" "x \<le> 100"
  with False have "0 < x" "x \<le> of_int (25 * 2 ^ 48) * 2 powi (- 46)"
    by (simp_all only: c)
  then have "double x \<le> of_int (25 * 2 ^ 48) * 2 powi (- 46)"
    by (rule double_le_representable) simp_all
  then show ?thesis by (simp only: c)
qed

text \<open>The two roundings together move the percentage by less than \<open>2 ^ - 45\<close>.\<close>

lemma progress_error:
  assumes "0 \<le> b" and "b \<le> t" and "0 < t"
  shows "\<bar>double (double (real_of_int b / real_of_int t) * 100) - real_of_int (100 * b) / real_of_int t\<bar>
           \<le> 200 / 2 ^ 53"
    and "0 \<le> double (double (real_of_int b / real_of_int t) * 100)"
    and "double (double (real_of_int b / real_of_int t) * 100) \<le> 100"
proof -
  define q where "q = real_of_int b / real_of_int t"
  define p where "p = double q * 100"
  have q0: "0 \<le> q" using assms by (simp add: q_def)
  have q1: "q \<le> 1" using assms by (simp add: q_def)
  have dq0: "0 \<le> double q" using q0 by (rule double_nonneg)
  have dq1: "double q \<le> 1" using q0 q1 by (rule double_le_1)
  have p0: "0 \<le> p" using dq0 by (simp add: p_def)
  have p1: "p \<le> 100" using dq1 by (simp add: p_def)
  show "0 \<le> double (double (real_of_int b / real_of_int t) * 100)"
    using double_nonneg [OF p0] by (simp add: p_def q_def)
  show "double (double (real_of_int b / real_of_int t) * 100) \<le> 100"
    using double_le_100 [OF p0 p1] by (simp add: p_def q_def)
  have e1: "\<bar>double q - q\<bar> \<le> 1 / 2 ^ 53"
    using double_error [OF q0] q1 by simp
  have e2: "\<bar>double p - p\<bar> \<le> 100 / 2 ^ 53"
    using double_error [OF p0] p1 by simp
  have "p - 100 * q = 100 * (double q - q)" by (simp add: p_def)
  then have "\<bar>p - 100 * q\<bar> = \<bar>100 * (double q - q)\<bar>" by (simp only:)
  also have "\<dots> = 100 * \<bar>double q - q\<bar>" by (simp only: abs_mult abs_numeral)
  finally have e3: "\<bar>p - 100 * q\<bar> \<le> 100 / 2 ^ 53" using e1 by simp
  have "\<bar>double p - 100 * q\<bar> \<le> \<bar>double p - p\<bar> + \<bar>p - 100 * q\<bar>" by simp
  then have "\<bar>double p - 100 * q\<bar> \<le> 200 / 2 ^ 53" using e2 e3 by simp
  moreover have "100 * q = real_of_int (100 * b) / real_of_int t" by (simp add: q_def)
  ultimately show "\<bar>double (double (real_of_int b / real_of_int t) * 100) - real_of_int (100 * b) / real_of_int t\<bar>
           \<le> 200 / 2 ^ 53"
    by (simp add: p_def q_def)
qed

lemma above_previous_integer:
  assumes t: "0 < t" and tb: "t < 2 ^ 45"
  shows "real_of_int (\<lceil>real_of_int n / real_of_int t\<rceil> - 1) + 1 / 2 ^ 45 < real_of_int n / real_of_int t"
proof -
  define k where "k = \<lceil>real_of_int n / real_of_int t\<rceil> - 1"
  have "real_of_int k < real_of_int n / real_of_int t" unfolding k_def by linarith
  then have "real_of_int k * real_of_int t < real_of_int n" using t by (simp add: pos_less_divide_eq)
  then have "real_of_int (k * t) < real_of_int n" by simp
  then have "k * t < n" by (simp only: of_int_less_iff)
  then have "k * t + 1 \<le> n" by simp
  then have "real_of_int (k * t + 1) \<le> real_of_int n" by (simp only: of_int_le_iff)
  then have "real_of_int k * real_of_int t + 1 \<le> real_of_int n" by simp
  then have "(real_of_int k * real_of_int t + 1) / real_of_int t \<le> real_of_int n / real_of_int t"
    using t by (simp add: divide_right_mono)
  then have a: "real_of_int k + 1 / real_of_int t \<le> real_of_int n / real_of_int t"
    using t by (simp add: add_divide_distrib)
  have "real_of_int t < 2 ^ 45" using tb by (metis of_int_less_iff of_int_numeral of_int_power)
  then have "1 / 2 ^ 45 < 1 / real_of_int t" using t by (simp add: divide_strict_left_mono)
  with a show ?thesis by (simp add: k_def)
qed

lemma spec_progress_eq:
  "spec_progress snapshot =
     \<lceil>real_of_int (100 * bytesTransferred snapshot) / real_of_int (totalBytes snapshot)\<rceil>"
  by (simp add: spec_progress_def mult.commute)

text \<open>
  Claim C8, as the code has it. For a snapshot with \<open>0 \<le> bytesTransferred \<le> totalBytes\<close>
  and \<open>0 < totalBytes\<close>, \<^verbatim>\<open>uploadFile\<close> reports an integer between 0 and 100: the ceiling of
  the double product of the double quotient \<^verbatim>\<open>bytesTransferred / totalBytes\<close> and 100. It is
  at most one above the ceiling of the exact percentage, and for a total below \<open>2 ^ 45\<close>
  bytes never below it.
\<close>

theorem uploadFile_progress_value:
  assumes "0 \<le> bytesTransferred snapshot"
    and "bytesTransferred snapshot \<le> totalBytes snapshot"
    and "0 < totalBytes snapshot"
  shows "case uploadFile_progress snapshot of
           None \<Rightarrow> False
         | Some v \<Rightarrow>
             0 \<le> v \<and> v \<le> 100 \<and>
             v = \<lceil>double (double (real_of_int (bytesTransferred snapshot) /
                                  real_of_int (totalBytes snapshot)) * 100)\<rceil> \<and>
             v \<le> spec_progress snapshot + 1 \<and>
             (totalBytes snapshot < 2 ^ 45 \<longrightarrow> spec_progress snapshot \<le> v)"
proof -
  define b where "b = bytesTransferred snapshot"
  define t where "t = totalBytes snapshot"
  define r where "r = double (double (real_of_int b / real_of_int t) * 100)"
  define x where "x = real_of_int (100 * b) / real_of_int t"
  define eps :: real where "eps = 200 / 2 ^ 53"
  define gap :: real where "gap = 1 / 2 ^ 45"
  have bt: "0 \<le> b" "b \<le> t" "0 < t" using assms by (simp_all add: b_def t_def)
  have err: "\<bar>r - x\<bar> \<le> eps" and r0: "0 \<le> r" and r1: "r \<le> 100"
    using progress_error [OF bt] by (simp_all add: r_def x_def eps_def)
  have small: "eps < gap" and gap1: "gap \<le> 1" by (simp_all add: eps_def gap_def)
  have sp: "spec_progress snapshot = \<lceil>x\<rceil>"
    by (simp only: spec_progress_eq x_def b_def t_def)
  have v0: "0 \<le> \<lceil>r\<rceil>" using r0 by simp
  have v1: "\<lceil>r\<rceil> \<le> 100" using r1 by (simp add: ceiling_le_iff)
  have "r \<le> x + 1" using err small gap1 by linarith
  also have "\<dots> \<le> real_of_int (\<lceil>x\<rceil> + 1)" by simp
  finally have up: "\<lceil>r\<rceil> \<le> \<lceil>x\<rceil> + 1" by (simp only: ceiling_le_iff)
  have lo: "\<lceil>x\<rceil> \<le> \<lceil>r\<rceil>" if tb: "t < 2 ^ 45"
  proof -
    have "real_of_int (\<lceil>x\<rceil> - 1) + gap < x"
      unfolding x_def gap_def using bt(3) tb by (rule above_previous_integer)
    moreover have "x - gap < r" using err small by linarith
    ultimately have "real_of_int (\<lceil>x\<rceil> - 1) < r" by linarith
    then have "\<lceil>x\<rceil> - 1 < \<lceil>r\<rceil>" by (simp only: less_ceiling_iff)
    then show ?thesis by simp
  qed
  have "uploadFile_progress snapshot = Some \<lceil>r\<rceil>"
    using bt(3) by (simp add: uploadFile_progress_def r_def b_def t_def)
  then show ?thesis using v0 v1 up lo by (simp add: sp r_def b_def t_def)
qed

theorem uploadFile_progress_value_witness:
  "0 \<le> bytesTransferred \<lparr>bytesTransferred = 1, totalBytes = 3\<rparr> \<and>
   bytesTransferred \<lparr>bytesTransferred = 1, totalBytes = 3\<rparr>
     \<le> totalBytes \<lparr>bytesTransferred = 1, totalBytes = 3\<rparr> \<and>
   0 < totalBytes \<lparr>bytesTransferred = 1, totalBytes = 3\<rparr> \<and>
   totalBytes \<lparr>bytesTransferred = 1, totalBytes = 3\<rparr> < 2 ^ 45 \<and>
   spec_progress \<lparr>bytesTransferred = 1, totalBytes = 3\<rparr> = 34 \<and>
   uploadFile_progress \<lparr>bytesTransferred = 1, totalBytes = 3\<rparr> = Some 34"
proof -
  have s: "spec_progress \<lparr>bytesTransferred = 1, totalBytes = 3\<rparr> = 34"
    by (simp add: spec_progress_def)
  have "case uploadFile_progress \<lparr>bytesTransferred = 1, totalBytes = 3\<rparr> of
          None \<Rightarrow> False
        | Some v \<Rightarrow> v \<le> 100 \<and> v \<le> 34 + 1 \<and> 34 \<le> v"
    using uploadFile_progress_value [of "\<lparr>bytesTransferred = 1, totalBytes = 3\<rparr>"] s
    by (simp split: option.splits)
  moreover have "uploadFile_progress \<lparr>bytesTransferred = 1, totalBytes = 3\<rparr> \<noteq> Some 35"
    by code_simp
  ultimately have "uploadFile_progress \<lparr>bytesTransferred = 1, totalBytes = 3\<rparr> = Some 34"
    by (auto split: option.splits)
  with s show ?thesis by simp
qed

text \<open>
  The reported value is not always the ceiling of the exact percentage: of 100 bytes with
  7 transferred, the quotient rounds to a double just above 0.07, its hundredfold to a
  double just above 7, and 8 is reported.
\<close>

theorem uploadFile_progress_7_of_100_counterexample:
  "uploadFile_progress \<lparr>bytesTransferred = 7, totalBytes = 100\<rparr> = Some 8 \<and>
   spec_progress \<lparr>bytesTransferred = 7, totalBytes = 100\<rparr> = 7"
proof -
  have "uploadFile_progress \<lparr>bytesTransferred = 7, totalBytes = 100\<rparr> = Some 8"
    by code_simp
  moreover have "spec_progress \<lparr>bytesTransferred = 7, totalBytes = 100\<rparr> = 7"
    by (simp add: spec_progress_def)
  ultimately show ?thesis by simp
qed

section \<open>Deleting a file through the Firebase adapter\<close>

text \<open>
  Claim C10. \<^verbatim>\<open>deleteFile\<close> returns \<^verbatim>\<open>true\<close> exactly when the deletion ran to its end or
  what was thrown has the code \<^verbatim>\<open>storage/object-not-found\<close>; in every other case it
  returns the string \<^verbatim>\<open>Error\<close>.
\<close>

theorem deleteFile_result:
  "(deleteFile attempt = Returned_true) =
     (attempt = Completed \<or>
      (\<exists>err. attempt = Thrown (Some err) \<and> code err = Some ''storage/object-not-found'')) \<and>
   (deleteFile attempt = Returned_true \<or> deleteFile attempt = Returned_string ''Error'')"
proof (cases attempt)
  case Completed
  then show ?thesis by (simp add: deleteFile_def)
next
  case (Thrown err)
  then show ?thesis by (cases err) (auto simp: deleteFile_def)
qed

section \<open>Status codes of the credential endpoint\<close>

lemma toUpperCase_options: "toUpperCase ''options'' = ''OPTIONS''"
  by code_simp

lemma toUpperCase_POST: "toUpperCase ''POST'' = ''POST''"
  by (simp add: toUpperCase_def)

lemma request_body_nonempty: "body event = Some b \<Longrightarrow> b \<noteq> [] \<Longrightarrow> request_body event = b"
  by (simp add: request_body_def or_else_def)

lemma request_body_empty: "body event = None \<or> body event = Some [] \<Longrightarrow> request_body event = ''{}''"
  by (auto simp: request_body_def or_else_def)

lemma request_method_post_empty_body: "request_method post_empty_body = Some ''POST''"
  by (simp add: request_method_def post_empty_body_def or_else_def)

text \<open>
  Claim C9, as the code has it. Whatever \<^verbatim>\<open>JSON.parse\<close>, the S3 client and the random
  keys do: an \<^verbatim>\<open>OPTIONS\<close> request gets 200, whatever its body; a request of another
  method whose body is a non-empty string that does not parse gets 400; a request of
  another method whose parsed body has a \<^verbatim>\<open>secret\<close> other than the configured one, or
  none, gets 401. An absent or empty body is not handed to \<^verbatim>\<open>JSON.parse\<close>: \<^verbatim>\<open>{}\<close> is
  parsed in its place, so the request gets 401.
\<close>

theorem handler_status:
  "(map_option toUpperCase (request_method event) = Some ''OPTIONS'' \<longrightarrow>
      statusCode (handler JSON_parse createPresignedPost randomKeys event) = 200) \<and>
   (map_option toUpperCase (request_method event) \<noteq> Some ''OPTIONS'' \<and>
    body event = Some b \<and> b \<noteq> [] \<and> JSON_parse b = None \<longrightarrow>
      statusCode (handler JSON_parse createPresignedPost randomKeys event) = 400) \<and>
   (map_option toUpperCase (request_method event) \<noteq> Some ''OPTIONS'' \<and>
    JSON_parse (request_body event) = Some parsed \<and>
    property (if truthy parsed then parsed else JObject []) ''secret'' \<noteq> Some (JString SECRET) \<longrightarrow>
      statusCode (handler JSON_parse createPresignedPost randomKeys event) = 401) \<and>
   (map_option toUpperCase (request_method event) \<noteq> Some ''OPTIONS'' \<and>
    (body event = None \<or> body event = Some []) \<and> JSON_parse ''{}'' = Some (JObject []) \<longrightarrow>
      statusCode (handler JSON_parse createPresignedPost randomKeys event) = 401)"
proof (intro conjI impI)
  assume "map_option toUpperCase (request_method event) = Some ''OPTIONS''"
  then show "statusCode (handler JSON_parse createPresignedPost randomKeys event) = 200"
    by (simp add: handler_def)
next
  assume a: "map_option toUpperCase (request_method event) \<noteq> Some ''OPTIONS'' \<and>
    body event = Some b \<and> b \<noteq> [] \<and> JSON_parse b = None"
  then have "request_body event = b" by (simp add: request_body_nonempty)
  with a show "statusCode (handler JSON_parse createPresignedPost randomKeys event) = 400"
    by (simp add: handler_def)
next
  assume "map_option toUpperCase (request_method event) \<noteq> Some ''OPTIONS'' \<and>
    JSON_parse (request_body event) = Some parsed \<and>
    property (if truthy parsed then parsed else JObject []) ''secret'' \<noteq> Some (JString SECRET)"
  then show "statusCode (handler JSON_parse createPresignedPost randomKeys event) = 401"
    by (simp add: handler_def Let_def)
next
  assume a: "map_option toUpperCase (request_method event) \<noteq> Some ''OPTIONS'' \<and>
    (body event = None \<or> body event = Some []) \<and> JSON_parse ''{}'' = Some (JObject [])"
  then have "request_body event = ''{}''" by (simp add: request_body_empty)
  with a show "statusCode (handler JSON_parse createPresignedPost randomKeys event) = 401"
    by (simp add: handler_def Let_def SECRET_def)
qed

theorem handler_status_witness:
  "map_option toUpperCase (request_method options_preflight) = Some ''OPTIONS'' \<and>
   statusCode (handler parse_example s3_example (''0123456789'', ''9876543210'') options_preflight) = 200 \<and>
   map_option toUpperCase (request_method post_not_json) \<noteq> Some ''OPTIONS'' \<and>
   body post_not_json = Some ''not json'' \<and> parse_example ''not json'' = None \<and>
   statusCode (handler parse_example s3_example (''0123456789'', ''9876543210'') post_not_json) = 400 \<and>
   map_option toUpperCase (request_method post_wrong_secret) \<noteq> Some ''OPTIONS'' \<and>
   parse_example (request_body post_wrong_secret) = Some (JObject [(''secret'', JString ''guess'')]) \<and>
   statusCode (handler parse_example s3_example (''0123456789'', ''9876543210'') post_wrong_secret) = 401 \<and>
   body post_empty_body = Some [] \<and> parse_example ''{}'' = Some (JObject []) \<and>
   statusCode (handler parse_example s3_example (''0123456789'', ''9876543210'') post_empty_body) = 401"
proof -
  have o: "map_option toUpperCase (request_method options_preflight) = Some ''OPTIONS''"
    by (simp add: request_method_def options_preflight_def or_else_def toUpperCase_options)
  have n: "map_option toUpperCase (request_method post_not_json) \<noteq> Some ''OPTIONS'' \<and>
      body post_not_json = Some ''not json'' \<and> ''not json'' \<noteq> [] \<and> parse_example ''not json'' = None"
    by (simp add: request_method_def post_not_json_def or_else_def toUpperCase_POST parse_example_def)
  have w: "map_option toUpperCase (request_method post_wrong_secret) \<noteq> Some ''OPTIONS'' \<and>
      parse_example (request_body post_wrong_secret) = Some (JObject [(''secret'', JString ''guess'')]) \<and>
      property (if truthy (JObject [(''secret'', JString ''guess'')])
                then JObject [(''secret'', JString ''guess'')] else JObject []) ''secret''
        \<noteq> Some (JString SECRET)"
    by (simp add: request_method_def post_wrong_secret_def or_else_def toUpperCase_POST
        parse_example_def request_body_def SECRET_def)
  have e: "map_option toUpperCase (request_method post_empty_body) \<noteq> Some ''OPTIONS'' \<and>
      (body post_empty_body = None \<or> body post_empty_body = Some []) \<and>
      parse_example ''{}'' = Some (JObject [])"
  proof (intro conjI)
    show "map_option toUpperCase (request_method post_empty_body) \<noteq> Some ''OPTIONS''"
      by (simp add: request_method_post_empty_body toUpperCase_POST)
    show "body post_empty_body = None \<or> body post_empty_body = Some []"
      by (simp add: post_empty_body_def)
    show "parse_example ''{}'' = Some (JObject [])"
      by (simp add: parse_example_def)
  qed
  have eb: "body post_empty_body = Some []" by (simp add: post_empty_body_def)
  note h = handler_status [of _ parse_example s3_example "(''0123456789'', ''9876543210'')"]
  show ?thesis
    using o n w e eb
      h [of options_preflight "''not json''" "JObject []"]
      h [of post_not_json "''not json''" "JObject []"]
      h [of post_wrong_secret "''not json''" "JObject [(''secret'', JString ''guess'')]"]
      h [of post_empty_body "''not json''" "JObject []"]
    by simp
qed

text \<open>
  So a body that does not parse is not always answered with 400: the empty string is not
  JSON, and a \<^verbatim>\<open>POST\<close> with the empty string as its body gets 401.
\<close>

theorem handler_empty_body_counterexample:
  "map_option toUpperCase (request_method post_empty_body) \<noteq> Some ''OPTIONS'' \<and>
   body post_empty_body = Some [] \<and> parse_example [] = None \<and>
   statusCode (handler parse_example s3_example (''0123456789'', ''9876543210'') post_empty_body) = 401"
proof -
  have m: "map_option toUpperCase (request_method post_empty_body) \<noteq> Some ''OPTIONS''"
    by (simp add: request_method_post_empty_body toUpperCase_POST)
  have b: "request_body post_empty_body = ''{}''"
    by (simp add: request_body_def post_empty_body_def or_else_def)
  have p: "parse_example ''{}'' = Some (JObject [])" by (simp add: parse_example_def)
  have "statusCode (handler parse_example s3_example (''0123456789'', ''9876543210'') post_empty_body) = 401"
    using m by (simp add: handler_def b p SECRET_def)
  with m show ?thesis by (simp add: post_empty_body_def parse_example_def)
qed

end
